theory Spec2Isabelle
  imports Main "HOL-Library.Word"
begin

section \<open>JavaScript values and thrown errors\<close>

text \<open>
  The values that flow through \<^verbatim>\<open>ChaincodeBase\<close>: raw arguments, decoded arguments,
  handler results and payloads. Numbers are the integral ones and \<open>NaN\<close> (the code
  only ever tests a number for truthiness). \<open>BigInt\<close> is a value of the type of that name,
  \<open>Buf\<close> a Node.js \<^verbatim>\<open>Buffer\<close>, \<open>Symbol\<close> a symbol with its description.
  \<open>Opaque\<close> stands for a host object whose content the code never inspects (the stub,
  the shim, the logger, a transaction helper): it is an object, hence truthy, it is not a
  Buffer, it is not callable and it has no array methods.
\<close>

datatype jsval =
    Undefined
  | Null
  | Bool bool
  | Num int
  | NaN
  | BigInt int
  | Str string
  | Symbol string
  | Arr "jsval list"
  | Obj "(string \<times> jsval) list"
  | Buf "8 word list"
  | Opaque string

text \<open>
  Modelled from the spec: the module \<^verbatim>\<open>constants/errors\<close>, of which \<^verbatim>\<open>ChaincodeBase.js\<close>
  uses four keys, is missing. The specification lists these four kinds and calls the set
  extensible.
\<close>

datatype error_key =
    MIGRATION_PATH_NOT_DEFINED
  | UNKNOWN_FUNCTION
  | PARSING_PARAMETERS_ERROR
  | UNKNOWN_ERROR
  | Custom string

text \<open>
  What a \<^verbatim>\<open>throw\<close> (or a rejected promise) carries: a \<^verbatim>\<open>ChaincodeError\<close> built from a key and
  a data argument, or any other \<^verbatim>\<open>Error\<close>, given by its name and its message.
\<close>

datatype js_error =
    ChaincodeError error_key jsval
  | JsError string string

text \<open>The JavaScript conversion to boolean, as used by \<^verbatim>\<open>!method\<close> and \<^verbatim>\<open>payload ? _ : _\<close>.\<close>

fun truthy :: "jsval \<Rightarrow> bool" where
  "truthy Undefined = False"
| "truthy Null = False"
| "truthy (Bool b) = b"
| "truthy (Num n) = (n \<noteq> 0)"
| "truthy NaN = False"
| "truthy (BigInt n) = (n \<noteq> 0)"
| "truthy (Str s) = (s \<noteq> [])"
| "truthy (Symbol d) = True"
| "truthy (Arr xs) = True"
| "truthy (Obj kvs) = True"
| "truthy (Buf bs) = True"
| "truthy (Opaque h) = True"

text \<open>\<^verbatim>\<open>Buffer.isBuffer\<close>.\<close>

fun isBuffer :: "jsval \<Rightarrow> bool" where
  "isBuffer (Buf bs) = True"
| "isBuffer v = False"

text \<open>
  \<^verbatim>\<open>Buffer.from\<close> applied to the result of \<^verbatim>\<open>JSON.stringify\<close>, which is a string or
  \<^verbatim>\<open>undefined\<close> (\<open>None\<close>). A string is held as its UTF-8 bytes, so the buffer has the same
  bytes; \<^verbatim>\<open>Buffer.from(undefined)\<close> throws a \<^verbatim>\<open>TypeError\<close>.
\<close>

definition utf8 :: "string \<Rightarrow> 8 word list" where
  "utf8 s = map of_char s"

definition Buffer_from :: "string option \<Rightarrow> js_error + jsval" where
  "Buffer_from x =
     (case x of
        None \<Rightarrow> Inl (JsError ''TypeError'' ''The first argument must be of type string'')
      | Some s \<Rightarrow> Inr (Buf (utf8 s)))"

section \<open>The invocation, the instance and its collaborators\<close>

text \<open>
  The stub hands over the function name, the raw parameters
  (\<^verbatim>\<open>stub.getFunctionAndParameters()\<close>) and the transaction id (\<^verbatim>\<open>stub.getTxID()\<close>).
\<close>

record stub =
  fcn :: string
  params :: "string list"
  TxID :: string

datatype txhelper =
    TransactionHelper stub
  | CustomHelper string stub

text \<open>
  The steps of a call are recorded in order: every logger call (identified by the
  statement that makes it and the invocation fields it interpolates), the call of
  \<^verbatim>\<open>setupInvoke\<close>, the call of the resolved method, and the call of the migration executor.
\<close>

datatype event =
    Log_Instantiated
  | Log_Invoked string string
  | Log_Unknown_function string
  | Log_Complete string string
  | Log_stacktrace js_error
  | Log_Data_of_error js_error
  | Log_Failed
  | Call_setupInvoke "string list"
  | Call_method string
  | Call_executor string

text \<open>The mutable part of a \<^verbatim>\<open>ChaincodeBase\<close> instance: the field \<^verbatim>\<open>migrating\<close>, and the record of calls.\<close>

record inst =
  migrating :: bool
  trace :: "event list"

type_synonym outcome = "(js_error + jsval) \<times> inst"

type_synonym operation = "inst \<Rightarrow> stub \<Rightarrow> txhelper \<Rightarrow> jsval list \<Rightarrow> outcome"

text \<open>The members \<^verbatim>\<open>ChaincodeBase.prototype\<close> defines as functions.\<close>

datatype base_method =
    M_constructor
  | M_getTransactionHelperFor
  | M_setupInvoke
  | M_parseParameters
  | M_prepareResponsePayload
  | M_Init
  | M_Invoke
  | M_runMigrations
  | M_ping

text \<open>
  What \<^verbatim>\<open>this[name]\<close> can yield: a value that is no function, one of the base class's
  methods, or any other function (a method of the concrete chaincode class, a native method).
\<close>

datatype member =
    Data jsval
  | Base base_method
  | Function operation

fun member_truthy :: "member \<Rightarrow> bool" where
  "member_truthy (Data v) = truthy v"
| "member_truthy (Base m) = True"
| "member_truthy (Function f) = True"

text \<open>
  Everything the file uses and does not define: the \<^verbatim>\<open>JSON\<close> object, the modules
  \<^verbatim>\<open>utils/normalizePayload\<close> and \<^verbatim>\<open>utils/migrations\<close>, the shim handed to the constructor,
  the \<^verbatim>\<open>serialized\<close> and \<^verbatim>\<open>message\<close> properties of a \<^verbatim>\<open>ChaincodeError\<close>, the properties an
  instance inherits from beyond \<^verbatim>\<open>ChaincodeBase.prototype\<close>, and the global scope as far as
  the identifiers \<^verbatim>\<open>setup\<close> and \<^verbatim>\<open>ret\<close> go, which \<^verbatim>\<open>Invoke\<close> uses outside any declaration
  that is in scope: \<open>global_setup\<close> says that the global object has a writable property
  \<^verbatim>\<open>setup\<close>, \<open>global_ret\<close> is the value of a global \<^verbatim>\<open>ret\<close>, if there is one.
\<close>

record platform =
  JSON_parse :: "string \<Rightarrow> js_error + jsval"
  JSON_stringify :: "jsval \<Rightarrow> js_error + string option"
  normalizePayload :: "jsval \<Rightarrow> js_error + jsval"
  migrations_runMigrations :: "string \<Rightarrow> inst \<Rightarrow> stub \<Rightarrow> txhelper \<Rightarrow> jsval list \<Rightarrow> outcome"
  shim_success :: "jsval \<Rightarrow> jsval"
  shim_error :: "jsval \<Rightarrow> jsval"
  serialized :: "error_key \<Rightarrow> jsval \<Rightarrow> jsval"
  ChaincodeError_message :: "error_key \<Rightarrow> jsval \<Rightarrow> string"
  inherited :: "string \<Rightarrow> member option"
  global_setup :: bool
  global_ret :: "jsval option"

text \<open>
  A chaincode class that extends \<^verbatim>\<open>ChaincodeBase\<close>: its name, the two extension points it
  may override (the getter \<^verbatim>\<open>migrationsPath\<close> and \<^verbatim>\<open>getTransactionHelperFor\<close>; \<open>None\<close> keeps
  the base class's definition) and the members it adds under names of its own.
\<close>

record chaincode =
  class_name :: string
  migrations_path :: "string option"
  helper_override :: "(stub \<Rightarrow> js_error + txhelper) option"
  operations :: "string \<Rightarrow> member option"

definition logger :: "event \<Rightarrow> inst \<Rightarrow> inst" where
  "logger e s = s\<lparr>trace := trace s @ [e]\<rparr>"

definition message :: "platform \<Rightarrow> js_error \<Rightarrow> string" where
  "message P err =
     (case err of
        ChaincodeError k d \<Rightarrow> ChaincodeError_message P k d
      | JsError n m \<Rightarrow> m)"

definition data :: "js_error \<Rightarrow> jsval" where
  "data err = (case err of ChaincodeError k d \<Rightarrow> d | JsError n m \<Rightarrow> Undefined)"

section \<open>The members of ChaincodeBase\<close>

text \<open>The getter \<^verbatim>\<open>migrationsPath\<close>: the base class throws, a subclass returns its path.\<close>

definition migrationsPath :: "chaincode \<Rightarrow> js_error + string" where
  "migrationsPath C =
     (case migrations_path C of
        None \<Rightarrow> Inl (ChaincodeError MIGRATION_PATH_NOT_DEFINED Undefined)
      | Some p \<Rightarrow> Inr p)"

definition getTransactionHelperFor :: "chaincode \<Rightarrow> stub \<Rightarrow> js_error + txhelper" where
  "getTransactionHelperFor C st =
     (case helper_override C of
        None \<Rightarrow> Inr (TransactionHelper st)
      | Some f \<Rightarrow> f st)"

text \<open>
  \<^verbatim>\<open>parseParameters\<close>: the \<^verbatim>\<open>forEach\<close> loop over the raw parameters, pushing onto
  \<^verbatim>\<open>parsedParams\<close>. The body is a \<^verbatim>\<open>try\<close> around \<^verbatim>\<open>JSON.parse\<close> whose \<^verbatim>\<open>catch\<close> pushes the
  parameter itself.
\<close>

definition parseParameters_step :: "platform \<Rightarrow> string \<Rightarrow> jsval list \<Rightarrow> js_error + jsval list" where
  "parseParameters_step P param parsedParams =
     (case JSON_parse P param of
        Inr v \<Rightarrow> Inr (parsedParams @ [v])
      | Inl err \<Rightarrow> Inr (parsedParams @ [Str param]))"

fun forEach :: "('a \<Rightarrow> 's \<Rightarrow> js_error + 's) \<Rightarrow> 'a list \<Rightarrow> 's \<Rightarrow> js_error + 's" where
  "forEach body [] acc = Inr acc"
| "forEach body (x # xs) acc =
     (case body x acc of
        Inl err \<Rightarrow> Inl err
      | Inr acc' \<Rightarrow> forEach body xs acc')"

definition parseParameters :: "platform \<Rightarrow> string list \<Rightarrow> js_error + jsval list" where
  "parseParameters P ps = forEach (parseParameters_step P) ps []"

definition setupInvoke ::
  "platform \<Rightarrow> chaincode \<Rightarrow> stub \<Rightarrow> string list \<Rightarrow> js_error + (jsval list \<times> txhelper)" where
  "setupInvoke P C st ps =
     (case parseParameters P ps of
        Inl err \<Rightarrow> Inl err
      | Inr parsedParameters \<Rightarrow>
          (case getTransactionHelperFor C st of
             Inl err \<Rightarrow> Inl err
           | Inr txHelper \<Rightarrow> Inr (parsedParameters, txHelper)))"

definition prepareResponsePayload :: "platform \<Rightarrow> jsval \<Rightarrow> js_error + jsval" where
  "prepareResponsePayload P payload =
     (if \<not> isBuffer payload then
        (if truthy payload then
           (case normalizePayload P payload of
              Inl err \<Rightarrow> Inl err
            | Inr n \<Rightarrow>
                (case JSON_stringify P n of
                   Inl err \<Rightarrow> Inl err
                 | Inr txt \<Rightarrow> Buffer_from txt))
         else Buffer_from (Some ''''))
      else Inr payload)"

definition Init :: "platform \<Rightarrow> inst \<Rightarrow> outcome" where
  "Init P s = (Inr (shim_success P Undefined), logger Log_Instantiated s)"

definition ping :: "inst \<Rightarrow> outcome" where
  "ping s = (Inr (Str ''pong''), s)"

text \<open>
  \<^verbatim>\<open>runMigrations\<close>: the flag is set, then the arguments of the executor call are
  evaluated (the getter \<^verbatim>\<open>migrationsPath\<close> first), then the executor runs, and the statement
  after the \<^verbatim>\<open>await\<close> clears the flag. A throw on the way leaves the function at once.
\<close>

definition runMigrations ::
  "platform \<Rightarrow> chaincode \<Rightarrow> inst \<Rightarrow> stub \<Rightarrow> txhelper \<Rightarrow> jsval list \<Rightarrow> outcome" where
  "runMigrations P C s st txHelper args =
     (let s1 = s\<lparr>migrating := True\<rparr> in
      case migrationsPath C of
        Inl err \<Rightarrow> (Inl err, s1)
      | Inr path \<Rightarrow>
          (case migrations_runMigrations P path (logger (Call_executor path) s1) st txHelper args of
             (Inl err, s2) \<Rightarrow> (Inl err, s2)
           | (Inr result, s2) \<Rightarrow> (Inr result, s2\<lparr>migrating := False\<rparr>)))"

section \<open>Property lookup on the instance\<close>

text \<open>
  \<^verbatim>\<open>this[name]\<close> walks the instance's own properties (assigned by the constructor), the
  concrete class, \<^verbatim>\<open>ChaincodeBase.prototype\<close> and what lies beyond it; a name found nowhere
  yields \<^verbatim>\<open>undefined\<close>. Two members of \<^verbatim>\<open>ChaincodeBase.prototype\<close> are getters, which run
  on lookup: \<^verbatim>\<open>name\<close> and \<^verbatim>\<open>migrationsPath\<close>.
\<close>

definition own_property :: "inst \<Rightarrow> string \<Rightarrow> member option" where
  "own_property s name =
     (if name = ''shim'' then Some (Data (Opaque ''shim''))
      else if name = ''migrating'' then Some (Data (Bool (migrating s)))
      else if name = ''logger'' then Some (Data (Opaque ''logger''))
      else None)"

definition ChaincodeBase_prototype :: "chaincode \<Rightarrow> string \<Rightarrow> (js_error + member) option" where
  "ChaincodeBase_prototype C name =
     (if name = ''constructor'' then Some (Inr (Base M_constructor))
      else if name = ''name'' then Some (Inr (Data (Str (class_name C))))
      else if name = ''migrationsPath'' then
        Some (case migrationsPath C of Inl err \<Rightarrow> Inl err | Inr p \<Rightarrow> Inr (Data (Str p)))
      else if name = ''getTransactionHelperFor'' then Some (Inr (Base M_getTransactionHelperFor))
      else if name = ''setupInvoke'' then Some (Inr (Base M_setupInvoke))
      else if name = ''parseParameters'' then Some (Inr (Base M_parseParameters))
      else if name = ''prepareResponsePayload'' then Some (Inr (Base M_prepareResponsePayload))
      else if name = ''Init'' then Some (Inr (Base M_Init))
      else if name = ''Invoke'' then Some (Inr (Base M_Invoke))
      else if name = ''runMigrations'' then Some (Inr (Base M_runMigrations))
      else if name = ''ping'' then Some (Inr (Base M_ping))
      else None)"

definition get_member :: "platform \<Rightarrow> chaincode \<Rightarrow> inst \<Rightarrow> string \<Rightarrow> js_error + member" where
  "get_member P C s name =
     (case own_property s name of
        Some m \<Rightarrow> Inr m
      | None \<Rightarrow>
          (case operations C name of
             Some m \<Rightarrow> Inr m
           | None \<Rightarrow>
               (case ChaincodeBase_prototype C name of
                  Some r \<Rightarrow> r
                | None \<Rightarrow>
                    (case inherited P name of
                       Some m \<Rightarrow> Inr m
                     | None \<Rightarrow> Inr (Data Undefined)))))"

section \<open>Invoke\<close>

text \<open>
  The call \<^verbatim>\<open>await method.call(this, stub, txHelper, ...parsedParameters)\<close>. A value that is
  no function has no \<^verbatim>\<open>call\<close>. The base class's own methods receive the stub as their
  first and the helper as their second argument: \<^verbatim>\<open>parseParameters\<close> and \<^verbatim>\<open>setupInvoke\<close> call
  \<^verbatim>\<open>forEach\<close> on an object that has none, the class constructor refuses a call without
  \<^verbatim>\<open>new\<close>. \<^verbatim>\<open>Invoke\<close> re-enters the dispatcher (\<open>self\<close>): the body of an \<^verbatim>\<open>async\<close> function
  runs within the call up to its first \<^verbatim>\<open>await\<close>, and \<^verbatim>\<open>Invoke\<close> reaches none before this
  call, so the activations nest on the call stack. \<open>self\<close> answers \<open>None\<close> where the stack
  has no room for another activation; the call then throws a \<^verbatim>\<open>RangeError\<close>.
\<close>

definition helper_value :: "txhelper \<Rightarrow> jsval" where
  "helper_value h =
     (case h of
        TransactionHelper st \<Rightarrow> Opaque ''TransactionHelper''
      | CustomHelper n st \<Rightarrow> Opaque n)"

definition call_method ::
  "(inst \<Rightarrow> stub \<Rightarrow> outcome option) \<Rightarrow> platform \<Rightarrow> chaincode \<Rightarrow> member \<Rightarrow>
     inst \<Rightarrow> stub \<Rightarrow> txhelper \<Rightarrow> jsval list \<Rightarrow> outcome" where
  "call_method self P C method s0 st txHelper parsedParameters =
     (let s = logger (Call_method (fcn st)) s0 in
      case method of
        Data v \<Rightarrow> (Inl (JsError ''TypeError'' ''method.call is not a function''), s0)
      | Function f \<Rightarrow> f s st txHelper parsedParameters
      | Base m \<Rightarrow>
          (case m of
             M_constructor \<Rightarrow>
               (Inl (JsError ''TypeError'' ''Class constructor cannot be invoked without new''), s)
           | M_getTransactionHelperFor \<Rightarrow>
               (case getTransactionHelperFor C st of
                  Inl err \<Rightarrow> (Inl err, s)
                | Inr h \<Rightarrow> (Inr (helper_value h), s))
           | M_setupInvoke \<Rightarrow>
               (Inl (JsError ''TypeError'' ''params.forEach is not a function''), s)
           | M_parseParameters \<Rightarrow>
               (Inl (JsError ''TypeError'' ''params.forEach is not a function''), s)
           | M_prepareResponsePayload \<Rightarrow>
               (prepareResponsePayload P (Opaque ''stub''), s)
           | M_Init \<Rightarrow> Init P s
           | M_Invoke \<Rightarrow>
               (case self s st of
                  None \<Rightarrow> (Inl (JsError ''RangeError'' ''Maximum call stack size exceeded''), s)
                | Some result \<Rightarrow> result)
           | M_runMigrations \<Rightarrow> runMigrations P C s st txHelper parsedParameters
           | M_ping \<Rightarrow> ping s))"

text \<open>
  Lines 117 to 127: the inner \<^verbatim>\<open>try\<close>. The right-hand side \<^verbatim>\<open>this.setupInvoke(...)\<close> is
  evaluated first; then the assignment to the undeclared identifier \<^verbatim>\<open>setup\<close> is made. A
  class body is strict code, so the assignment throws a \<^verbatim>\<open>ReferenceError\<close> unless the global
  object has such a property. Whatever is thrown inside is rethrown as
  \<^verbatim>\<open>PARSING_PARAMETERS_ERROR\<close> with the message of the original.
\<close>

definition Invoke_setup ::
  "platform \<Rightarrow> chaincode \<Rightarrow> stub \<Rightarrow> string list \<Rightarrow> js_error + (jsval list \<times> txhelper)" where
  "Invoke_setup P C st ps =
     (case (case setupInvoke P C st ps of
              Inl err \<Rightarrow> Inl err
            | Inr setup \<Rightarrow>
                if global_setup P then Inr setup
                else Inl (JsError ''ReferenceError'' ''setup is not defined'')) of
        Inl err \<Rightarrow>
          Inl (ChaincodeError PARSING_PARAMETERS_ERROR (Obj [(''message'', Str (message P err))]))
      | Inr setup \<Rightarrow> Inr setup)"

text \<open>
  Lines 101 to 134: the body of the outer \<^verbatim>\<open>try\<close>. \<open>Inr\<close> is a \<^verbatim>\<open>return\<close>, \<open>Inl\<close> a throw
  that the \<^verbatim>\<open>catch\<close> below receives, together with the instance as it is at that moment.
\<close>

definition Invoke_try ::
  "(inst \<Rightarrow> stub \<Rightarrow> outcome option) \<Rightarrow> platform \<Rightarrow> chaincode \<Rightarrow> inst \<Rightarrow> stub \<Rightarrow> outcome" where
  "Invoke_try self P C s st =
     (let s1 = logger (Log_Invoked (fcn st) (TxID st)) s in
      case get_member P C s1 (fcn st) of
        Inl err \<Rightarrow> (Inl err, s1)
      | Inr method \<Rightarrow>
          if \<not> member_truthy method then
            (Inr (shim_error P (serialized P UNKNOWN_FUNCTION (Obj [(''fn'', Str (fcn st))]))),
             logger (Log_Unknown_function (fcn st)) s1)
          else
            (let s2 = logger (Call_setupInvoke (params st)) s1 in
             case Invoke_setup P C st (params st) of
               Inl err \<Rightarrow> (Inl err, s2)
             | Inr (parsedParameters, txHelper) \<Rightarrow>
                 (case call_method self P C method s2 st txHelper parsedParameters of
                    (Inl err, s3) \<Rightarrow> (Inl err, s3)
                  | (Inr payload, s3) \<Rightarrow>
                      (case prepareResponsePayload P payload of
                         Inl err \<Rightarrow> (Inl err, s3)
                       | Inr payload' \<Rightarrow>
                           (Inr (shim_success P payload'),
                            logger (Log_Complete (fcn st) (TxID st)) s3)))))"

text \<open>
  Lines 135 to 150: the \<^verbatim>\<open>catch\<close>. An error that is no \<^verbatim>\<open>ChaincodeError\<close> is wrapped as
  \<^verbatim>\<open>UNKNOWN_ERROR\<close>; two lines are logged; the third log line interpolates \<^verbatim>\<open>ret.fcn\<close>, but
  \<^verbatim>\<open>ret\<close> is a \<^verbatim>\<open>const\<close> of the \<^verbatim>\<open>try\<close> block and not in scope here, so the identifier
  resolves in the global scope or not at all.
\<close>

definition Invoke_catch :: "platform \<Rightarrow> inst \<Rightarrow> js_error \<Rightarrow> outcome" where
  "Invoke_catch P s err =
     (let error = (case err of
                     ChaincodeError k d \<Rightarrow> (k, d)
                   | JsError n m \<Rightarrow> (UNKNOWN_ERROR, Obj [(''message'', Str (message P err))]));
          s1 = logger (Log_stacktrace err) s in
      case JSON_stringify P (data err) of
        Inl thrown \<Rightarrow> (Inl thrown, s1)
      | Inr txt \<Rightarrow>
          (let s2 = logger (Log_Data_of_error err) s1 in
           case global_ret P of
             None \<Rightarrow> (Inl (JsError ''ReferenceError'' ''ret is not defined''), s2)
           | Some r \<Rightarrow>
               if r = Undefined \<or> r = Null then
                 (Inl (JsError ''TypeError'' ''Cannot read properties of undefined''), s2)
               else
                 (Inr (shim_error P (serialized P (fst error) (snd error))), logger Log_Failed s2)))"

definition Invoke_body ::
  "(inst \<Rightarrow> stub \<Rightarrow> outcome option) \<Rightarrow> platform \<Rightarrow> chaincode \<Rightarrow> inst \<Rightarrow> stub \<Rightarrow> outcome" where
  "Invoke_body self P C s st =
     (case Invoke_try self P C s st of
        (Inr response, s') \<Rightarrow> (Inr response, s')
      | (Inl err, s') \<Rightarrow> Invoke_catch P s' err)"

text \<open>
  \<^verbatim>\<open>Invoke\<close> can resolve the name \<^verbatim>\<open>Invoke\<close> and call itself with the same stub. The first
  argument is the number of activations of \<^verbatim>\<open>Invoke\<close> the call stack has room for: with
  room for none the call cannot be made (\<open>None\<close>), otherwise the body runs, and a nested call
  finds one activation less. The frames of the other calls are not counted: where exactly
  the deepest activation runs out of stack depends on the engine, and here it is the call
  that would open the activation beyond the bound which throws.
\<close>

primrec Invoke :: "nat \<Rightarrow> platform \<Rightarrow> chaincode \<Rightarrow> inst \<Rightarrow> stub \<Rightarrow> outcome option" where
  "Invoke 0 P C s st = None"
| "Invoke (Suc room) P C s st = Some (Invoke_body (Invoke room P C) P C s st)"

section \<open>The response encoder as the specification words it\<close>

text \<open>
  The response encoder in the words of the specification, to compare with
  \<open>prepareResponsePayload\<close>: a byte sequence is returned unchanged; any other value that is
  present (neither \<^verbatim>\<open>null\<close> nor \<^verbatim>\<open>undefined\<close>) is normalised and serialised; an absent
  one gives the empty byte sequence.
\<close>

definition encode_as_specified :: "platform \<Rightarrow> jsval \<Rightarrow> js_error + jsval" where
  "encode_as_specified P v =
     (if isBuffer v then Inr v
      else if v = Null \<or> v = Undefined then Inr (Buf [])
      else
        (case normalizePayload P v of
           Inl err \<Rightarrow> Inl err
         | Inr n \<Rightarrow>
             (case JSON_stringify P n of
                Inl err \<Rightarrow> Inl err
              | Inr txt \<Rightarrow> Buffer_from txt)))"

section \<open>A platform to run the definitions on\<close>

text \<open>
  Node.js as far as the examples below need it. \<open>stringify\<close> is \<^verbatim>\<open>JSON.stringify\<close> on
  the values of \<open>jsval\<close> (\<open>None\<close> is \<^verbatim>\<open>undefined\<close>, the answer for \<^verbatim>\<open>undefined\<close> and for
  a symbol; a BigInt anywhere in the value makes it throw; in strings only the quote and
  the backslash are escaped; a host object is rendered as an empty object).
\<close>

function show_nat :: "nat \<Rightarrow> string" where
  "show_nat n =
     (if n < 10 then [''0123456789'' ! n]
      else show_nat (n div 10) @ [''0123456789'' ! (n mod 10)])"
  by pat_completeness auto
termination
  by (relation "measure id") auto

definition show_int :: "int \<Rightarrow> string" where
  "show_int i = (if i < 0 then ''-'' @ show_nat (nat (- i)) else show_nat (nat i))"

fun escape :: "string \<Rightarrow> string" where
  "escape [] = []"
| "escape (c # cs) =
     (if c = CHR 0x22 \<or> c = CHR 0x5C then CHR 0x5C # c # escape cs else c # escape cs)"

definition quote :: "string \<Rightarrow> string" where
  "quote s = [CHR 0x22] @ escape s @ [CHR 0x22]"

fun commas :: "string list \<Rightarrow> string" where
  "commas [] = []"
| "commas [x] = x"
| "commas (x # y # zs) = x @ '','' @ commas (y # zs)"

fun collect :: "(js_error + 'a) list \<Rightarrow> js_error + 'a list" where
  "collect [] = Inr []"
| "collect (Inl err # rs) = Inl err"
| "collect (Inr x # rs) = (case collect rs of Inl err \<Rightarrow> Inl err | Inr xs \<Rightarrow> Inr (x # xs))"

fun stringify :: "jsval \<Rightarrow> js_error + string option" where
  "stringify Undefined = Inr None"
| "stringify Null = Inr (Some ''null'')"
| "stringify (Bool b) = Inr (Some (if b then ''true'' else ''false''))"
| "stringify (Num n) = Inr (Some (show_int n))"
| "stringify NaN = Inr (Some ''null'')"
| "stringify (BigInt n) = Inl (JsError ''TypeError'' ''Do not know how to serialize a BigInt'')"
| "stringify (Str s) = Inr (Some (quote s))"
| "stringify (Symbol d) = Inr None"
| "stringify (Arr xs) =
     (case collect (map stringify xs) of
        Inl err \<Rightarrow> Inl err
      | Inr ts \<Rightarrow>
          Inr (Some (''['' @ commas (map (\<lambda>t. case t of None \<Rightarrow> ''null'' | Some txt \<Rightarrow> txt) ts) @ '']'')))"
| "stringify (Obj kvs) =
     (case collect (map (\<lambda>kv. stringify (snd kv)) kvs) of
        Inl err \<Rightarrow> Inl err
      | Inr ts \<Rightarrow>
          Inr (Some (''{'' @ commas (concat (map (\<lambda>(k, t). case t of
                                                       None \<Rightarrow> []
                                                     | Some txt \<Rightarrow> [quote k @ '':'' @ txt])
                                                (zip (map fst kvs) ts))) @ ''}'')))"
| "stringify (Buf bs) =
     Inr (Some (''{'' @ quote ''type'' @ '':'' @ quote ''Buffer'' @ '','' @ quote ''data'' @ '':[''
                @ commas (map (\<lambda>b. show_nat (unat b)) bs) @ '']}''))"
| "stringify (Opaque h) = Inr (Some ''{}'')"

text \<open>
  \<^verbatim>\<open>JSON.parse\<close> on the three raw arguments of the specification's scenario; this table
  takes every other string for malformed.
\<close>

definition parse_literal :: "string \<Rightarrow> js_error + jsval" where
  "parse_literal s =
     (if s = ''123'' then Inr (Num 123)
      else if s = quote ''abc'' then Inr (Str ''abc'')
      else Inl (JsError ''SyntaxError'' ''Unexpected token''))"

definition key_name :: "error_key \<Rightarrow> string" where
  "key_name k =
     (case k of
        MIGRATION_PATH_NOT_DEFINED \<Rightarrow> ''MIGRATION_PATH_NOT_DEFINED''
      | UNKNOWN_FUNCTION \<Rightarrow> ''UNKNOWN_FUNCTION''
      | PARSING_PARAMETERS_ERROR \<Rightarrow> ''PARSING_PARAMETERS_ERROR''
      | UNKNOWN_ERROR \<Rightarrow> ''UNKNOWN_ERROR''
      | Custom n \<Rightarrow> n)"

text \<open>
  The members of \<^verbatim>\<open>Object.prototype\<close> that \<^verbatim>\<open>ChaincodeBase.prototype\<close> does not shadow, each
  called with the stub as first argument.
\<close>

definition Object_prototype :: "string \<Rightarrow> member option" where
  "Object_prototype name =
     (if name = ''toString'' \<or> name = ''toLocaleString'' then
        Some (Function (\<lambda>s st h args. (Inr (Str ''[object Object]''), s)))
      else if name = ''valueOf'' then
        Some (Function (\<lambda>s st h args. (Inr (Opaque ''chaincode''), s)))
      else if name = ''hasOwnProperty'' \<or> name = ''isPrototypeOf'' \<or> name = ''propertyIsEnumerable'' then
        Some (Function (\<lambda>s st h args. (Inr (Bool False), s)))
      else if name = ''__lookupGetter__'' \<or> name = ''__lookupSetter__'' then
        Some (Function (\<lambda>s st h args. (Inr Undefined, s)))
      else if name = ''__defineGetter__'' \<or> name = ''__defineSetter__'' then
        Some (Function (\<lambda>s st h args.
                (Inl (JsError ''TypeError'' ''Object.prototype.__defineGetter__: Expecting function''), s)))
      else if name = ''__proto__'' then
        Some (Data (Opaque ''prototype''))
      else None)"

text \<open>
  A Node.js process as it starts: the global object has no property \<^verbatim>\<open>setup\<close> and none
  called \<^verbatim>\<open>ret\<close>. The shim answers with a status and a payload or a message, the executor
  finds nothing to run.
\<close>

definition node :: platform where
  "node =
     \<lparr> JSON_parse = parse_literal,
       JSON_stringify = stringify,
       normalizePayload = Inr,
       migrations_runMigrations = (\<lambda>path s st h args. (Inr Undefined, s)),
       shim_success = (\<lambda>payload. Obj [(''status'', Num 200), (''message'', Str []),
                                        (''payload'', if truthy payload then payload else Buf [])]),
       shim_error = (\<lambda>msg. Obj [(''status'', Num 500), (''message'', msg)]),
       serialized = (\<lambda>k d. Obj [(''key'', Str (key_name k)), (''data'', d)]),
       ChaincodeError_message = (\<lambda>k d. key_name k),
       inherited = Object_prototype,
       global_setup = False,
       global_ret = None \<rparr>"

text \<open>The same process after some other script has created globals \<^verbatim>\<open>setup\<close> and \<^verbatim>\<open>ret\<close>.\<close>

definition node_with_globals :: platform where
  "node_with_globals = node\<lparr>global_setup := True, global_ret := Some (Obj [])\<rparr>"

text \<open>The process with a global \<^verbatim>\<open>setup\<close> only.\<close>

definition node_with_setup :: platform where
  "node_with_setup = node\<lparr>global_setup := True\<rparr>"

text \<open>A normalisation that throws.\<close>

definition node_failing_normalize :: platform where
  "node_failing_normalize =
     node\<lparr>normalizePayload := (\<lambda>v. Inl (JsError ''Error'' ''cannot normalize''))\<rparr>"

text \<open>An executor whose migration throws.\<close>

definition node_failing_migration :: platform where
  "node_failing_migration =
     node\<lparr>migrations_runMigrations := (\<lambda>path s st h args. (Inl (JsError ''Error'' ''boom''), s))\<rparr>"

text \<open>
  \<^verbatim>\<open>ChaincodeBase\<close> instantiated as it is, and a chaincode with a migrations path and an
  operation that throws.
\<close>

definition ChaincodeBase :: chaincode where
  "ChaincodeBase =
     \<lparr> class_name = ''ChaincodeBase'', migrations_path = None, helper_override = None,
       operations = (\<lambda>name. None) \<rparr>"

definition Example :: chaincode where
  "Example =
     \<lparr> class_name = ''Example'', migrations_path = Some ''./migrations'', helper_override = None,
       operations = (\<lambda>name. if name = ''explode''
                              then Some (Function (\<lambda>s st h args. (Inl (JsError ''Error'' ''boom''), s)))
                              else None) \<rparr>"

text \<open>A chaincode whose transaction-helper factory throws.\<close>

definition Guarded :: chaincode where
  "Guarded =
     \<lparr> class_name = ''Guarded'', migrations_path = None,
       helper_override = Some (\<lambda>st. Inl (JsError ''Error'' ''no helper'')),
       operations = (\<lambda>name. None) \<rparr>"

text \<open>The instance as the constructor leaves it.\<close>

definition constructed :: inst where
  "constructed = \<lparr> migrating = False, trace = [] \<rparr>"

definition invocation :: "string \<Rightarrow> string list \<Rightarrow> stub" where
  "invocation name args = \<lparr> fcn = name, params = args, TxID = ''tx1'' \<rparr>"

section \<open>parseParameters\<close>

lemma forEach_parseParameters_step:
  "forEach (parseParameters_step P) ps acc =
     Inr (acc @ map (\<lambda>param. case JSON_parse P param of Inr v \<Rightarrow> v | Inl err \<Rightarrow> Str param) ps)"
proof (induction ps arbitrary: acc)
  case Nil
  show ?case by simp
next
  case (Cons p ps)
  have step: "parseParameters_step P p acc =
      Inr (acc @ [case JSON_parse P p of Inr v \<Rightarrow> v | Inl err \<Rightarrow> Str p])"
    by (simp add: parseParameters_step_def split: sum.split)
  show ?case
    by (simp add: step Cons.IH)
qed

text \<open>
  C7. For every sequence of raw string arguments \<open>parseParameters\<close> returns (it never
  throws), and what it returns has the length and the order of the input: the element at
  each position is the JSON decoding of the raw string at that position where
  \<^verbatim>\<open>JSON.parse\<close> succeeds, and that raw string itself where it throws.
\<close>

theorem parseParameters_elementwise:
  "\<exists>out. parseParameters P ps = Inr out \<and> length out = length ps \<and>
     out = map (\<lambda>param. case JSON_parse P param of Inr v \<Rightarrow> v | Inl err \<Rightarrow> Str param) ps"
  by (simp add: parseParameters_def forEach_parseParameters_step)

text \<open>The scenario of the specification.\<close>

theorem parseParameters_elementwise_witness:
  "parseParameters node [''123'', quote ''abc'', ''not-json'']
     = Inr [Num 123, Str ''abc'', Str ''not-json'']"
  using parseParameters_elementwise [of node "[''123'', quote ''abc'', ''not-json'']"]
  by (simp add: node_def parse_literal_def quote_def)

section \<open>prepareResponsePayload\<close>

text \<open>
  C8, as amended. The response encoder is the identity on Buffers. For every value that is
  no Buffer and is truthy it returns the UTF-8 bytes of the JSON serialisation of the
  normalised value where the normalisation returns and the serialisation gives a text;
  where the normalisation or the serialisation throws it throws that error, and where the
  serialisation is \<^verbatim>\<open>undefined\<close> (as it is for a symbol) it throws the \<^verbatim>\<open>TypeError\<close> of
  \<^verbatim>\<open>Buffer.from\<close>. For \<^verbatim>\<open>null\<close> and \<^verbatim>\<open>undefined\<close> it returns the empty Buffer.
\<close>

theorem prepareResponsePayload_cases:
  "(isBuffer v \<longrightarrow> prepareResponsePayload P v = Inr v) \<and>
   (\<not> isBuffer v \<and> truthy v \<and> normalizePayload P v = Inr n \<and> JSON_stringify P n = Inr (Some txt)
      \<longrightarrow> prepareResponsePayload P v = Inr (Buf (utf8 txt))) \<and>
   (\<not> isBuffer v \<and> truthy v \<and> normalizePayload P v = Inl err
      \<longrightarrow> prepareResponsePayload P v = Inl err) \<and>
   (\<not> isBuffer v \<and> truthy v \<and> normalizePayload P v = Inr n \<and> JSON_stringify P n = Inl err
      \<longrightarrow> prepareResponsePayload P v = Inl err) \<and>
   (\<not> isBuffer v \<and> truthy v \<and> normalizePayload P v = Inr n \<and> JSON_stringify P n = Inr None
      \<longrightarrow> prepareResponsePayload P v
            = Inl (JsError ''TypeError'' ''The first argument must be of type string'')) \<and>
   (v = Null \<or> v = Undefined \<longrightarrow> prepareResponsePayload P v = Inr (Buf []))"
  by (auto simp add: prepareResponsePayload_def Buffer_from_def utf8_def)

theorem prepareResponsePayload_cases_witness:
  "prepareResponsePayload node (Buf [1, 2]) = Inr (Buf [1, 2]) \<and>
   prepareResponsePayload node (Str ''pong'') = Inr (Buf (utf8 (quote ''pong''))) \<and>
   prepareResponsePayload node_failing_normalize (Str ''pong'')
     = Inl (JsError ''Error'' ''cannot normalize'') \<and>
   prepareResponsePayload node (BigInt 1)
     = Inl (JsError ''TypeError'' ''Do not know how to serialize a BigInt'') \<and>
   prepareResponsePayload node (Symbol ''id'')
     = Inl (JsError ''TypeError'' ''The first argument must be of type string'') \<and>
   prepareResponsePayload node Null = Inr (Buf []) \<and>
   prepareResponsePayload node Undefined = Inr (Buf [])"
  using prepareResponsePayload_cases [of "Buf [1, 2]" node]
        prepareResponsePayload_cases [of "Str ''pong''" node "Str ''pong''" "quote ''pong''"]
        prepareResponsePayload_cases [of "Str ''pong''" node_failing_normalize _ _
                                         "JsError ''Error'' ''cannot normalize''"]
        prepareResponsePayload_cases [of "BigInt 1" node "BigInt 1" _
                                         "JsError ''TypeError'' ''Do not know how to serialize a BigInt''"]
        prepareResponsePayload_cases [of "Symbol ''id''" node "Symbol ''id''"]
        prepareResponsePayload_cases [of Null node]
        prepareResponsePayload_cases [of Undefined node]
  by (simp add: node_def node_failing_normalize_def)

text \<open>
  C8 as stated fails at the number 0, which is present and no Buffer: the specification's
  encoder serialises it to the text \<^verbatim>\<open>0\<close>, \<open>prepareResponsePayload\<close> returns no bytes. It
  fails at a symbol too, which is present and no Buffer and has no serialisation:
  \<open>prepareResponsePayload\<close> throws.
\<close>

theorem prepareResponsePayload_zero_counterexample:
  "prepareResponsePayload node (Num 0) = Inr (Buf []) \<and>
   encode_as_specified node (Num 0) = Inr (Buf [48]) \<and>
   prepareResponsePayload node (Num 0) \<noteq> encode_as_specified node (Num 0) \<and>
   prepareResponsePayload node (Symbol ''id'')
     = Inl (JsError ''TypeError'' ''The first argument must be of type string'')"
  by (simp add: prepareResponsePayload_def encode_as_specified_def Buffer_from_def utf8_def
        node_def show_int_def)

text \<open>
  C10. For every value that is no Buffer and is falsy, the present ones (the number 0,
  \<^verbatim>\<open>NaN\<close>, \<^verbatim>\<open>false\<close>, the empty string) included, \<open>prepareResponsePayload\<close> returns the empty
  Buffer, whatever the normalisation and the serialisation of the value would be.
\<close>

theorem prepareResponsePayload_falsy_empty:
  "\<not> isBuffer v \<Longrightarrow> \<not> truthy v \<Longrightarrow> prepareResponsePayload P v = Inr (Buf [])"
  by (simp add: prepareResponsePayload_def Buffer_from_def utf8_def)

theorem prepareResponsePayload_falsy_empty_witness:
  "prepareResponsePayload node (Num 0) = Inr (Buf []) \<and>
   prepareResponsePayload node (Bool False) = Inr (Buf []) \<and>
   prepareResponsePayload node (Str []) = Inr (Buf []) \<and>
   stringify (Num 0) = Inr (Some ''0'') \<and> stringify (Bool False) = Inr (Some ''false'') \<and>
   stringify (Str []) = Inr (Some (quote []))"
  using prepareResponsePayload_falsy_empty [of "Num 0" node]
        prepareResponsePayload_falsy_empty [of "Bool False" node]
        prepareResponsePayload_falsy_empty [of "Str []" node]
  by (simp add: show_int_def)

section \<open>Unfolding\<close>

lemmas sample_defs =
  node_def node_with_globals_def node_with_setup_def node_failing_migration_def
  node_failing_normalize_def ChaincodeBase_def Example_def Guarded_def constructed_def
  invocation_def Object_prototype_def key_name_def parse_literal_def quote_def show_int_def
  utf8_def

lemmas Invoke_defs =
  Invoke_body_def Invoke_try_def Invoke_catch_def Invoke_setup_def setupInvoke_def
  call_method_def get_member_def own_property_def ChaincodeBase_prototype_def
  parseParameters_def parseParameters_step_def getTransactionHelperFor_def migrationsPath_def
  prepareResponsePayload_def Buffer_from_def logger_def message_def data_def
  Init_def ping_def runMigrations_def helper_value_def

section \<open>The room on the call stack\<close>

text \<open>
  Without a global \<^verbatim>\<open>setup\<close> the inner \<^verbatim>\<open>try\<close> always throws, no method is called, and
  the result of \<open>Invoke\<close> does not depend on the room the stack has.
\<close>

lemma Invoke_setup_without_global:
  "\<not> global_setup P \<Longrightarrow> \<exists>err. Invoke_setup P C st ps = Inl err"
  by (simp add: Invoke_setup_def split: sum.splits)

lemma Invoke_room_without_global_setup:
  assumes "\<not> global_setup P"
  shows "Invoke (Suc room) P C s st = Invoke (Suc 0) P C s st"
proof -
  obtain err where "Invoke_setup P C st (params st) = Inl err"
    using Invoke_setup_without_global [OF assms] by blast
  then show ?thesis
    by (simp add: Invoke_body_def Invoke_try_def Let_def split: sum.splits)
qed

section \<open>runMigrations\<close>

text \<open>Where \<open>runMigrations\<close> returns, the flag is cleared.\<close>

lemma runMigrations_returns_flag_cleared:
  "runMigrations P C s st h args = (Inr result, s') \<Longrightarrow> \<not> migrating s'"
  by (auto simp add: runMigrations_def migrationsPath_def split: option.splits sum.splits prod.splits)

text \<open>
  Where the executor throws, \<open>runMigrations\<close> throws the same error and the instance stays
  as the executor left it, which received it with the flag set.
\<close>

lemma runMigrations_executor_throws:
  "migrations_path C = Some path \<Longrightarrow>
   migrations_runMigrations P path (logger (Call_executor path) (s\<lparr>migrating := True\<rparr>)) st h args
     = (Inl err, s') \<Longrightarrow>
   runMigrations P C s st h args = (Inl err, s')"
  by (simp add: runMigrations_def migrationsPath_def)

text \<open>
  Without a migrations path the getter throws while the arguments of the executor call are
  evaluated: the executor is not called, and the flag, set by the statement before, stays set.
\<close>

lemma runMigrations_without_path:
  "migrations_path C = None \<Longrightarrow>
   runMigrations P C s st h args
     = (Inl (ChaincodeError MIGRATION_PATH_NOT_DEFINED Undefined), s\<lparr>migrating := True\<rparr>)"
  by (simp add: runMigrations_def migrationsPath_def)

text \<open>
  C1. The claim is that the flag \<^verbatim>\<open>migrating\<close> is false after every call of
  \<open>runMigrations\<close>, also when the executor throws. The code clears the flag in the statement
  after the \<^verbatim>\<open>await\<close>, which a throw skips: with an executor whose migration throws
  \<^verbatim>\<open>Error("boom")\<close>, the call rejects with that error and leaves the flag true.
\<close>

theorem runMigrations_executor_throws_flag_stays:
  "runMigrations node_failing_migration Example constructed
      (invocation ''runMigrations'' []) (TransactionHelper (invocation ''runMigrations'' [])) []
     = (Inl (JsError ''Error'' ''boom''),
        \<lparr> migrating = True, trace = [Call_executor ''./migrations''] \<rparr>)"
  by (simp add: runMigrations_def migrationsPath_def logger_def sample_defs)

text \<open>
  C2. The claim is that without a migrations path \<open>runMigrations\<close> fails with
  \<^verbatim>\<open>MIGRATION_PATH_NOT_DEFINED\<close> and that the flag is false before and after the call. On an
  instance of \<^verbatim>\<open>ChaincodeBase\<close> itself the call fails with that error and the executor is not
  called, but the flag, false before, is true after.
\<close>

theorem runMigrations_without_path_flag_stays:
  "migrating constructed = False \<and>
   runMigrations node ChaincodeBase constructed
      (invocation ''runMigrations'' []) (TransactionHelper (invocation ''runMigrations'' [])) []
     = (Inl (ChaincodeError MIGRATION_PATH_NOT_DEFINED Undefined),
        \<lparr> migrating = True, trace = [] \<rparr>)"
  by (simp add: runMigrations_def migrationsPath_def logger_def sample_defs)

section \<open>Invoke: names whose lookup is falsy\<close>

lemma get_member_logger:
  "get_member P C (logger e s) name = get_member P C s name"
  by (simp add: get_member_def own_property_def logger_def)

text \<open>A name found nowhere on the instance looks up to \<^verbatim>\<open>undefined\<close>.\<close>

lemma get_member_absent:
  "own_property s name = None \<Longrightarrow> operations C name = None \<Longrightarrow>
   ChaincodeBase_prototype C name = None \<Longrightarrow> inherited P name = None \<Longrightarrow>
   get_member P C s name = Inr (Data Undefined)"
  by (simp add: get_member_def)

lemma Invoke_try_unresolved:
  "get_member P C s (fcn st) = Inr m \<Longrightarrow> \<not> member_truthy m \<Longrightarrow>
   Invoke_try self P C s st =
     (Inr (shim_error P (serialized P UNKNOWN_FUNCTION (Obj [(''fn'', Str (fcn st))]))),
      s\<lparr>trace := trace s @ [Log_Invoked (fcn st) (TxID st), Log_Unknown_function (fcn st)]\<rparr>)"
  by (simp add: Invoke_try_def get_member_logger Let_def) (simp add: logger_def)

text \<open>
  C6, as amended. For every operation name whose lookup on the instance, \<^verbatim>\<open>this[name]\<close>,
  yields \<^verbatim>\<open>undefined\<close> or another falsy value (every name under which the instance has no
  property, and the name of a field that holds a falsy value, as \<^verbatim>\<open>migrating\<close> does while it
  is false), \<open>Invoke\<close> returns the failure response built from the serialised
  \<^verbatim>\<open>ChaincodeError\<close> of kind \<^verbatim>\<open>UNKNOWN_FUNCTION\<close> whose data is \<^verbatim>\<open>{fn: name}\<close>, \<open>name\<close> being the
  requested name.
\<close>

theorem Invoke_unknown_function:
  "(get_member P C s (fcn st) = Inr m \<and> \<not> member_truthy m \<longrightarrow>
      map_option fst (Invoke (Suc room) P C s st) =
        Some (Inr (shim_error P (serialized P UNKNOWN_FUNCTION (Obj [(''fn'', Str (fcn st))]))))) \<and>
   (own_property s (fcn st) = None \<and> operations C (fcn st) = None \<and>
    ChaincodeBase_prototype C (fcn st) = None \<and> inherited P (fcn st) = None \<longrightarrow>
      map_option fst (Invoke (Suc room) P C s st) =
        Some (Inr (shim_error P (serialized P UNKNOWN_FUNCTION (Obj [(''fn'', Str (fcn st))])))))"
proof (intro conjI impI)
  assume "get_member P C s (fcn st) = Inr m \<and> \<not> member_truthy m"
  then show "map_option fst (Invoke (Suc room) P C s st) =
      Some (Inr (shim_error P (serialized P UNKNOWN_FUNCTION (Obj [(''fn'', Str (fcn st))]))))"
    by (simp add: Invoke_body_def Invoke_try_unresolved)
next
  assume "own_property s (fcn st) = None \<and> operations C (fcn st) = None \<and>
    ChaincodeBase_prototype C (fcn st) = None \<and> inherited P (fcn st) = None"
  then have "get_member P C s (fcn st) = Inr (Data Undefined)"
    by (simp add: get_member_absent)
  moreover have "\<not> member_truthy (Data Undefined)" by simp
  ultimately show "map_option fst (Invoke (Suc room) P C s st) =
      Some (Inr (shim_error P (serialized P UNKNOWN_FUNCTION (Obj [(''fn'', Str (fcn st))]))))"
    by (simp add: Invoke_body_def Invoke_try_unresolved)
qed

theorem Invoke_unknown_function_witness:
  "own_property constructed ''doesNotExist'' = None \<and>
   operations ChaincodeBase ''doesNotExist'' = None \<and>
   ChaincodeBase_prototype ChaincodeBase ''doesNotExist'' = None \<and>
   inherited node ''doesNotExist'' = None \<and>
   map_option fst (Invoke (Suc 0) node ChaincodeBase constructed (invocation ''doesNotExist'' [])) =
     Some (Inr (Obj [(''status'', Num 500),
                     (''message'', Obj [(''key'', Str ''UNKNOWN_FUNCTION''),
                                        (''data'', Obj [(''fn'', Str ''doesNotExist'')])])])) \<and>
   get_member node ChaincodeBase constructed ''migrating'' = Inr (Data (Bool False)) \<and>
   \<not> member_truthy (Data (Bool False)) \<and>
   map_option fst (Invoke (Suc 0) node ChaincodeBase constructed (invocation ''migrating'' [])) =
     Some (Inr (Obj [(''status'', Num 500),
                     (''message'', Obj [(''key'', Str ''UNKNOWN_FUNCTION''),
                                        (''data'', Obj [(''fn'', Str ''migrating'')])])]))"
proof -
  have absent: "own_property constructed ''doesNotExist'' = None \<and>
      operations ChaincodeBase ''doesNotExist'' = None \<and>
      ChaincodeBase_prototype ChaincodeBase ''doesNotExist'' = None \<and>
      inherited node ''doesNotExist'' = None"
    by (simp add: own_property_def ChaincodeBase_prototype_def sample_defs)
  have field: "get_member node ChaincodeBase constructed ''migrating'' = Inr (Data (Bool False))"
    by (simp add: get_member_def own_property_def sample_defs)
  have names: "fcn (invocation ''doesNotExist'' []) = ''doesNotExist''"
    "fcn (invocation ''migrating'' []) = ''migrating''"
    by (simp_all add: invocation_def)
  show ?thesis
    using absent field
      Invoke_unknown_function [of node ChaincodeBase constructed "invocation ''doesNotExist'' []"
                                  "Data Undefined" 0]
      Invoke_unknown_function [of node ChaincodeBase constructed "invocation ''migrating'' []"
                                  "Data (Bool False)" 0]
    by (simp add: names) (simp add: sample_defs)
qed

text \<open>
  C6 as stated fails at the name \<^verbatim>\<open>name\<close>, which is no operation of the handler: the
  lookup runs the getter and yields the class name, a string and truthy, so \<open>Invoke\<close> goes
  on to call it. In a plain Node.js process \<open>Invoke\<close> rejects; with both globals it returns
  a failure of kind \<^verbatim>\<open>UNKNOWN_ERROR\<close>, not \<^verbatim>\<open>UNKNOWN_FUNCTION\<close>.
\<close>

theorem Invoke_name_counterexample:
  "get_member node ChaincodeBase constructed ''name'' = Inr (Data (Str ''ChaincodeBase'')) \<and>
   map_option fst (Invoke (Suc 0) node ChaincodeBase constructed (invocation ''name'' [])) =
     Some (Inl (JsError ''ReferenceError'' ''ret is not defined'')) \<and>
   map_option fst (Invoke (Suc 0) node_with_globals ChaincodeBase constructed (invocation ''name'' [])) =
     Some (Inr (shim_error node_with_globals
                  (serialized node_with_globals UNKNOWN_ERROR
                     (Obj [(''message'', Str ''method.call is not a function'')])))) \<and>
   map_option fst (Invoke (Suc 0) node_with_globals ChaincodeBase constructed (invocation ''name'' [])) \<noteq>
     Some (Inr (shim_error node_with_globals
                  (serialized node_with_globals UNKNOWN_FUNCTION (Obj [(''fn'', Str ''name'')]))))"
  by (simp add: Invoke_defs sample_defs)

text \<open>
  C9, as amended. For every invocation whose operation name looks up to \<^verbatim>\<open>undefined\<close> or
  another falsy value, no handler code executes: \<open>Invoke\<close> leaves the instance as it was,
  but for two logger calls (the line that announces the invocation and the line that
  reports the unknown function). The lookup comes before parameter coercion, construction
  of the transaction helper and any method call, and the path that answers
  \<^verbatim>\<open>UNKNOWN_FUNCTION\<close> performs none of them, whatever the raw parameters, the JSON decoder
  and the helper factory are.
\<close>

theorem Invoke_unresolved_calls_nothing:
  "get_member P C s (fcn st) = Inr m \<Longrightarrow> \<not> member_truthy m \<Longrightarrow>
   map_option snd (Invoke (Suc room) P C s st) =
     Some (s\<lparr>trace := trace s @ [Log_Invoked (fcn st) (TxID st), Log_Unknown_function (fcn st)]\<rparr>)"
  by (simp add: Invoke_body_def Invoke_try_unresolved)

theorem Invoke_unresolved_calls_nothing_witness:
  "get_member node Guarded constructed ''doesNotExist'' = Inr (Data Undefined) \<and>
   \<not> member_truthy (Data Undefined) \<and>
   map_option snd (Invoke (Suc 0) node Guarded constructed (invocation ''doesNotExist'' [''123''])) =
     Some \<lparr> migrating = False,
            trace = [Log_Invoked ''doesNotExist'' ''tx1'', Log_Unknown_function ''doesNotExist''] \<rparr>"
proof -
  have lookup: "get_member node Guarded constructed (fcn (invocation ''doesNotExist'' [''123'']))
      = Inr (Data Undefined)"
    by (simp add: get_member_def own_property_def ChaincodeBase_prototype_def sample_defs)
  have falsy: "\<not> member_truthy (Data Undefined)" by simp
  show ?thesis
    using lookup Invoke_unresolved_calls_nothing [OF lookup falsy, of 0]
    by (simp add: sample_defs)
qed

text \<open>
  C9 as stated fails at the name \<^verbatim>\<open>logger\<close>, which resolves to no handler operation: the
  lookup yields the logger object, which is truthy, so \<open>setupInvoke\<close> runs before the call
  fails. On a chaincode whose helper factory throws, the factory has run: its error comes
  back as \<^verbatim>\<open>PARSING_PARAMETERS_ERROR\<close>. In a plain Node.js process \<open>setupInvoke\<close> is called
  as well.
\<close>

theorem Invoke_logger_counterexample:
  "get_member node_with_globals Guarded constructed ''logger'' = Inr (Data (Opaque ''logger'')) \<and>
   Invoke (Suc 0) node_with_globals Guarded constructed (invocation ''logger'' [''123'']) =
     Some (Inr (shim_error node_with_globals
                  (serialized node_with_globals PARSING_PARAMETERS_ERROR
                     (Obj [(''message'', Str ''no helper'')]))),
           \<lparr> migrating = False,
              trace = [Log_Invoked ''logger'' ''tx1'', Call_setupInvoke [''123''],
                       Log_stacktrace (ChaincodeError PARSING_PARAMETERS_ERROR
                                         (Obj [(''message'', Str ''no helper'')])),
                       Log_Data_of_error (ChaincodeError PARSING_PARAMETERS_ERROR
                                            (Obj [(''message'', Str ''no helper'')])),
                       Log_Failed] \<rparr>) \<and>
   Invoke (Suc 0) node ChaincodeBase constructed (invocation ''logger'' [''123'']) =
     Some (Inl (JsError ''ReferenceError'' ''ret is not defined''),
           \<lparr> migrating = False,
              trace = [Log_Invoked ''logger'' ''tx1'', Call_setupInvoke [''123''],
                       Log_stacktrace (ChaincodeError PARSING_PARAMETERS_ERROR
                                         (Obj [(''message'', Str ''setup is not defined'')])),
                       Log_Data_of_error (ChaincodeError PARSING_PARAMETERS_ERROR
                                            (Obj [(''message'', Str ''setup is not defined'')]))] \<rparr>)"
  by (simp add: Invoke_defs sample_defs)

section \<open>Invoke: names that resolve\<close>

text \<open>
  Whatever the \<^verbatim>\<open>try\<close> block throws, the \<^verbatim>\<open>catch\<close> block throws a \<^verbatim>\<open>ReferenceError\<close> of
  its own where no global \<^verbatim>\<open>ret\<close> exists (and the data of the error can be serialised
  for the log line before).
\<close>

lemma Invoke_catch_without_ret:
  "global_ret P = None \<Longrightarrow> JSON_stringify P (data err) = Inr txt \<Longrightarrow>
   fst (Invoke_catch P s err) = Inl (JsError ''ReferenceError'' ''ret is not defined'')"
  by (simp add: Invoke_catch_def Let_def)

text \<open>Where a global \<^verbatim>\<open>ret\<close> exists, the \<^verbatim>\<open>catch\<close> block does what it is written for.\<close>

lemma Invoke_catch_with_ret:
  "global_ret P = Some (Obj kvs) \<Longrightarrow> JSON_stringify P Undefined = Inr txt \<Longrightarrow>
   fst (Invoke_catch P s (JsError n m)) =
     Inr (shim_error P (serialized P UNKNOWN_ERROR (Obj [(''message'', Str m)])))"
  by (simp add: Invoke_catch_def Let_def data_def message_def)

text \<open>
  C3. The claim is that every failure inside \<open>Invoke\<close> comes back as a failure response and
  that no raw error leaves \<open>Invoke\<close>. With the operation \<^verbatim>\<open>explode\<close>, which throws
  \<^verbatim>\<open>Error("boom")\<close>, \<open>Invoke\<close> rejects with a \<^verbatim>\<open>ReferenceError\<close>: in a plain Node.js process
  the assignment to \<^verbatim>\<open>setup\<close> throws before the operation is called, and the \<^verbatim>\<open>catch\<close> block
  throws at \<^verbatim>\<open>ret.fcn\<close>; with a global \<^verbatim>\<open>setup\<close> the operation runs and throws, and the
  \<^verbatim>\<open>catch\<close> block throws at \<^verbatim>\<open>ret.fcn\<close> all the same.
\<close>

theorem Invoke_rejects_with_ReferenceError:
  "Invoke (Suc 0) node Example constructed (invocation ''explode'' []) =
     Some (Inl (JsError ''ReferenceError'' ''ret is not defined''),
           \<lparr> migrating = False,
              trace = [Log_Invoked ''explode'' ''tx1'', Call_setupInvoke [],
                       Log_stacktrace (ChaincodeError PARSING_PARAMETERS_ERROR
                                         (Obj [(''message'', Str ''setup is not defined'')])),
                       Log_Data_of_error (ChaincodeError PARSING_PARAMETERS_ERROR
                                            (Obj [(''message'', Str ''setup is not defined'')]))] \<rparr>) \<and>
   Invoke (Suc 0) node_with_setup Example constructed (invocation ''explode'' []) =
     Some (Inl (JsError ''ReferenceError'' ''ret is not defined''),
           \<lparr> migrating = False,
              trace = [Log_Invoked ''explode'' ''tx1'', Call_setupInvoke [], Call_method ''explode'',
                       Log_stacktrace (JsError ''Error'' ''boom''),
                       Log_Data_of_error (JsError ''Error'' ''boom'')] \<rparr>)"
  by (simp add: Invoke_defs sample_defs)

text \<open>The scenario of the specification, in a process that has both globals.\<close>

lemma Invoke_explode_with_globals:
  "map_option fst (Invoke (Suc 0) node_with_globals Example constructed (invocation ''explode'' [])) =
     Some (Inr (shim_error node_with_globals
                  (serialized node_with_globals UNKNOWN_ERROR (Obj [(''message'', Str ''boom'')]))))"
  by (simp add: Invoke_defs sample_defs)

text \<open>
  C4. The claim is that \<open>Invoke\<close> answers the operation \<^verbatim>\<open>ping\<close> with a success response
  whose payload decodes to \<^verbatim>\<open>pong\<close>. In a plain Node.js process \<open>Invoke\<close> resolves
  \<^verbatim>\<open>ping\<close>, calls \<open>setupInvoke\<close>, throws at the assignment to \<^verbatim>\<open>setup\<close> and then at
  \<^verbatim>\<open>ret.fcn\<close>: it rejects with a \<^verbatim>\<open>ReferenceError\<close> and \<^verbatim>\<open>ping\<close> is never called.
\<close>

theorem Invoke_ping_rejects:
  "Invoke (Suc 0) node ChaincodeBase constructed (invocation ''ping'' []) =
     Some (Inl (JsError ''ReferenceError'' ''ret is not defined''),
           \<lparr> migrating = False,
              trace = [Log_Invoked ''ping'' ''tx1'', Call_setupInvoke [],
                       Log_stacktrace (ChaincodeError PARSING_PARAMETERS_ERROR
                                         (Obj [(''message'', Str ''setup is not defined'')])),
                       Log_Data_of_error (ChaincodeError PARSING_PARAMETERS_ERROR
                                            (Obj [(''message'', Str ''setup is not defined'')]))] \<rparr>)"
  by (simp add: Invoke_defs sample_defs)

text \<open>With a global \<^verbatim>\<open>setup\<close> the payload is the JSON text of the string \<^verbatim>\<open>pong\<close>.\<close>

lemma Invoke_ping_with_setup:
  "Invoke (Suc 0) node_with_setup ChaincodeBase constructed (invocation ''ping'' []) =
     Some (Inr (shim_success node_with_setup (Buf (utf8 (quote ''pong'')))),
           \<lparr> migrating = False,
              trace = [Log_Invoked ''ping'' ''tx1'', Call_setupInvoke [], Call_method ''ping'',
                       Log_Complete ''ping'' ''tx1''] \<rparr>)"
  by (simp add: Invoke_defs sample_defs)

section \<open>Invoke: the names Init and Invoke\<close>












end
